theory Spec2Isabelle
  imports Complex_Main
begin

section \<open>JavaScript values\<close>

text \<open>
  A number is an IEEE double, read as the real it denotes, an infinity or NaN; the two
  zeros are identified (strict equality and the key comparison of \<open>Map\<close> identify them
  too).
\<close>

datatype number = NaN | Finite real | PosInf | NegInf

text \<open>
  A \<open>Date\<close> is an object: it has an identity and a time value (NaN for an invalid
  date). Dates are never mutated by the store, so the pair is the object: two dates are
  the same object iff both components agree.
\<close>

datatype date = Date (ident: nat) (getTime: number)

text \<open>
  The value kinds a record field, a key or a filter operand can hold: \<open>undefined\<close>,
  \<open>null\<close>, booleans, numbers, strings, symbols (by identity) and dates.
\<close>

datatype val = Undefined | Null | Bool bool | Num number | Str string | Sym nat | DateV date

text \<open>The relational operators on numbers: every comparison with NaN is false.\<close>

fun num_lt :: "number \<Rightarrow> number \<Rightarrow> bool" where
  "num_lt NaN _ = False"
| "num_lt _ NaN = False"
| "num_lt (Finite x) (Finite y) = (x < y)"
| "num_lt (Finite x) PosInf = True"
| "num_lt (Finite x) NegInf = False"
| "num_lt PosInf _ = False"
| "num_lt NegInf NegInf = False"
| "num_lt NegInf _ = True"

fun num_eq :: "number \<Rightarrow> number \<Rightarrow> bool" where
  "num_eq NaN _ = False"
| "num_eq _ NaN = False"
| "num_eq x y = (x = y)"

definition num_gt :: "number \<Rightarrow> number \<Rightarrow> bool" where
  "num_gt x y = num_lt y x"

definition num_le :: "number \<Rightarrow> number \<Rightarrow> bool" where
  "num_le x y = (num_lt x y \<or> num_eq x y)"

definition num_ge :: "number \<Rightarrow> number \<Rightarrow> bool" where
  "num_ge x y = num_le y x"

text \<open>
  Strict equality \<open>===\<close>: equal kinds and equal values, except that NaN differs from
  itself; objects (dates) and symbols compare by identity.
\<close>

fun strict_eq :: "val \<Rightarrow> val \<Rightarrow> bool" where
  "strict_eq (Num x) (Num y) = num_eq x y"
| "strict_eq a b = (a = b)"

text \<open>
  The comparison of \<open>Map\<close> keys (SameValueZero) is strict equality with NaN equal to
  itself: on \<^typ>\<open>val\<close> it is HOL's equality.
\<close>

text \<open>Strings compare by code unit, lexicographically.\<close>

fun str_lt :: "string \<Rightarrow> string \<Rightarrow> bool" where
  "str_lt [] [] = False"
| "str_lt [] (y # ys) = True"
| "str_lt (x # xs) [] = False"
| "str_lt (x # xs) (y # ys) =
     (if x = y then str_lt xs ys else (of_char x :: nat) < of_char y)"

datatype error =
    DuplicateKeyError val  \<comment> \<open>\<open>new Error(`Duplicate key: ${String(finalKey)}`)\<close>\<close>
  | NotFoundError          \<comment> \<open>\<open>new Error('NotFound')\<close>\<close>
  | TypeError              \<comment> \<open>raised by the language itself\<close>
  | Thrown string          \<comment> \<open>an error raised by the caller's own code\<close>

text \<open>
  \<open>ToNumber\<close>, as the relational operators apply it to an operand that is not a
  string compared with a string. A symbol raises; a date gives its time value. The
  conversion of a string is the language's numeric-literal parser, which is not part of
  this repository: it is the parameter \<open>tn\<close>.
\<close>

fun ToNumber :: "(string \<Rightarrow> number) \<Rightarrow> val \<Rightarrow> error + number" where
  "ToNumber tn Undefined = Inr NaN"
| "ToNumber tn Null = Inr (Finite 0)"
| "ToNumber tn (Bool b) = Inr (Finite (if b then 1 else 0))"
| "ToNumber tn (Num x) = Inr x"
| "ToNumber tn (Str s) = Inr (tn s)"
| "ToNumber tn (Sym i) = Inl TypeError"
| "ToNumber tn (DateV d) = Inr (getTime d)"

text \<open>The operator \<open>a > b\<close> on arbitrary values.\<close>

fun js_gt :: "(string \<Rightarrow> number) \<Rightarrow> val \<Rightarrow> val \<Rightarrow> error + bool" where
  "js_gt tn (Str a) (Str b) = Inr (str_lt b a)"
| "js_gt tn a b =
     (case ToNumber tn a of
        Inl e \<Rightarrow> Inl e
      | Inr x \<Rightarrow> (case ToNumber tn b of
                    Inl e \<Rightarrow> Inl e
                  | Inr y \<Rightarrow> Inr (num_gt x y)))"

section \<open>The insertion-ordered \<open>Map\<close>\<close>

text \<open>
  A \<open>Map\<close> keeps its entries in insertion order: an association list. \<open>set\<close> on a
  key that is present replaces the value in place, on a new key it appends.
\<close>

definition Map_has :: "(val \<times> 'v) list \<Rightarrow> val \<Rightarrow> bool" where
  "Map_has m k = (map_of m k \<noteq> None)"

definition Map_get :: "(val \<times> 'v) list \<Rightarrow> val \<Rightarrow> 'v option" where
  "Map_get m k = map_of m k"

fun Map_set :: "(val \<times> 'v) list \<Rightarrow> val \<Rightarrow> 'v \<Rightarrow> (val \<times> 'v) list" where
  "Map_set [] k v = [(k, v)]"
| "Map_set ((k', v') # m) k v =
     (if k' = k then (k', v) # m else (k', v') # Map_set m k v)"

definition Map_delete :: "(val \<times> 'v) list \<Rightarrow> val \<Rightarrow> (val \<times> 'v) list" where
  "Map_delete m k = filter (\<lambda>e. fst e \<noteq> k) m"

definition Map_values :: "(val \<times> 'v) list \<Rightarrow> 'v list" where
  "Map_values m = map snd m"

section \<open>Records and the store\<close>

text \<open>
  A record is an object: a finite map from property names to values. A property that is
  absent reads as \<open>undefined\<close>.
\<close>

type_synonym entity = "string \<rightharpoonup> val"

definition getProp :: "entity \<Rightarrow> string \<Rightarrow> val" where
  "getProp item k = (case item k of None \<Rightarrow> Undefined | Some v \<Rightarrow> v)"

text \<open>
  The logger collaborator is modelled as the default one, which only writes a line: the
  store keeps the sequence of events (level and event name) it has emitted.
\<close>

datatype log_event = Debug string | Info string | Warn string | Err string

record store =
  keyName :: string
  entries :: "(val \<times> entity) list"  \<comment> \<open>the field \<open>map\<close>\<close>
  autoIdSeed :: nat
  logger :: "log_event list"

definition DataStore :: "string \<Rightarrow> store" where
  "DataStore k = \<lparr>keyName = k, entries = [], autoIdSeed = 1, logger = []\<rparr>"

definition emit :: "log_event \<Rightarrow> store \<Rightarrow> store" where
  "emit ev s = s\<lparr>logger := logger s @ [ev]\<rparr>"

subsection \<open>Key generation\<close>

definition digit_char :: "nat \<Rightarrow> char" where
  "digit_char d = ''0123456789abcdefghijklmnopqrstuvwxyz'' ! d"

text \<open>\<open>n.toString(base)\<close> for a non-negative integer and a base from 2 to 36.\<close>

fun toString_radix :: "nat \<Rightarrow> nat \<Rightarrow> string" where
  "toString_radix base n =
     (if base < 2 \<or> n < base then [digit_char n]
      else toString_radix base (n div base) @ [digit_char (n mod base)])"

declare toString_radix.simps [simp del]

text \<open>
  \<open>generateId\<close>: \<open>now\<close> is the reading of \<open>Date.now()\<close>. The counter is a
  double: at \<open>2^53\<close> the increment no longer changes it.
\<close>

definition generateId :: "nat \<Rightarrow> store \<Rightarrow> string \<times> store" where
  "generateId now s =
     (''id_'' @ toString_radix 36 now @ ''_'' @ toString_radix 10 (autoIdSeed s),
      s\<lparr>autoIdSeed := (if autoIdSeed s < 2 ^ 53 then autoIdSeed s + 1 else autoIdSeed s)\<rparr>)"

subsection \<open>create, get, update, delete, clear\<close>

definition create :: "nat \<Rightarrow> entity \<Rightarrow> store \<Rightarrow> (error + entity) \<times> store" where
  "create now item s =
     (let key = getProp item (keyName s);
          (finalKey, s1) =
             (if key = Undefined \<or> key = Null
              then (let (generated, s') = generateId now s in (Str generated, s'))
              else (key, s));
          record = item(keyName s \<mapsto> finalKey)
      in if Map_has (entries s1) finalKey then (Inl (DuplicateKeyError finalKey), s1)
         else (Inr record,
               emit (Info ''create'') (s1\<lparr>entries := Map_set (entries s1) finalKey record\<rparr>)))"

definition get :: "val \<Rightarrow> store \<Rightarrow> entity option \<times> store" where
  "get key s = (Map_get (entries s) key, emit (Debug ''get'') s)"

definition update :: "val \<Rightarrow> entity \<Rightarrow> store \<Rightarrow> (error + entity) \<times> store" where
  "update key patch s =
     (case Map_get (entries s) key of
        None \<Rightarrow> (Inl NotFoundError, s)
      | Some existing \<Rightarrow>
          (let updated = existing ++ patch
           in (Inr updated,
               emit (Info ''update'') (s\<lparr>entries := Map_set (entries s) key updated\<rparr>))))"

definition delete :: "val \<Rightarrow> store \<Rightarrow> bool \<times> store" where
  "delete key s =
     (let existed = Map_has (entries s) key
      in (existed, emit (Info ''delete'') (s\<lparr>entries := Map_delete (entries s) key\<rparr>)))"

definition clear :: "store \<Rightarrow> store" where
  "clear s = emit (Info ''clear'') (s\<lparr>entries := []\<rparr>)"

section \<open>Sorting and slicing\<close>

datatype SortDirection = asc | desc

text \<open>
  \<open>limit\<close> and \<open>offset\<close> are integral numbers (negative ones included) whose sum is
  exact; \<open>None\<close> is a property that is absent.
\<close>

record QueryOptions =
  limit :: "int option"
  offset :: "int option"
  sortBy :: "string option"
  sortDir :: "SortDirection option"

text \<open>\<open>options?.f\<close>: the options themselves may be absent.\<close>

definition opt :: "(QueryOptions \<Rightarrow> 'a option) \<Rightarrow> QueryOptions option \<Rightarrow> 'a option" where
  "opt f options = (case options of None \<Rightarrow> None | Some os \<Rightarrow> f os)"

text \<open>
  \<open>Array.prototype.slice(start, end)\<close>: a negative index counts from the end, both are
  clamped to the array.
\<close>

definition slice :: "'a list \<Rightarrow> int \<Rightarrow> int \<Rightarrow> 'a list" where
  "slice xs start fin =
     (let len = int (length xs);
          k = (if start < 0 then max (len + start) 0 else min start len);
          final = (if fin < 0 then max (len + fin) 0 else min fin len)
      in take (nat (final - k)) (drop (nat k) xs))"

text \<open>
  \<open>Array.prototype.sort(cmp)\<close> as a stable insertion sort: each element, from the left,
  is placed before the first element of the sorted prefix that compares greater. An
  error raised by the comparator ends the sort. (Where the comparator is not a
  consistent ordering the language leaves the resulting order to the engine.)
\<close>

fun insert_by :: "('a \<Rightarrow> 'a \<Rightarrow> error + int) \<Rightarrow> 'a \<Rightarrow> 'a list \<Rightarrow> error + 'a list" where
  "insert_by cmp x [] = Inr [x]"
| "insert_by cmp x (y # ys) =
     (case cmp y x of
        Inl e \<Rightarrow> Inl e
      | Inr r \<Rightarrow>
          if r > 0 then Inr (x # y # ys)
          else (case insert_by cmp x ys of Inl e \<Rightarrow> Inl e | Inr zs \<Rightarrow> Inr (y # zs)))"

fun sort_into :: "('a \<Rightarrow> 'a \<Rightarrow> error + int) \<Rightarrow> 'a list \<Rightarrow> 'a list \<Rightarrow> error + 'a list" where
  "sort_into cmp acc [] = Inr acc"
| "sort_into cmp acc (x # xs) =
     (case insert_by cmp x acc of Inl e \<Rightarrow> Inl e | Inr acc' \<Rightarrow> sort_into cmp acc' xs)"

definition Array_sort :: "('a \<Rightarrow> 'a \<Rightarrow> error + int) \<Rightarrow> 'a list \<Rightarrow> error + 'a list" where
  "Array_sort cmp xs = sort_into cmp [] xs"

text \<open>The comparator that \<open>list\<close> and \<open>query\<close> both pass to \<open>sort\<close>.\<close>

definition compare_by ::
  "(string \<Rightarrow> number) \<Rightarrow> string \<Rightarrow> int \<Rightarrow> entity \<Rightarrow> entity \<Rightarrow> error + int" where
  "compare_by tn field dir a b =
     (let va = getProp a field; vb = getProp b field
      in if strict_eq va vb then Inr 0
         else (case js_gt tn va vb of
                 Inl e \<Rightarrow> Inl e
               | Inr g \<Rightarrow> Inr ((if g then 1 else -1) * dir)))"

text \<open>
  The sort stage, the same statements in \<open>list\<close> and in \<open>query\<close>: a sort field that
  is absent or falsy (the empty string) leaves the order as it is.
\<close>

definition sort_stage ::
  "(string \<Rightarrow> number) \<Rightarrow> QueryOptions option \<Rightarrow> entity list \<Rightarrow> error + entity list" where
  "sort_stage tn options arr =
     (case opt sortBy options of
        None \<Rightarrow> Inr arr
      | Some field \<Rightarrow>
          if field = [] then Inr arr
          else (let dir = (if opt sortDir options = Some desc then -1 else 1)
                in Array_sort (compare_by tn field dir) arr))"

text \<open>The slice stage, the same statements in \<open>list\<close> and in \<open>query\<close>.\<close>

definition slice_stage :: "QueryOptions option \<Rightarrow> entity list \<Rightarrow> entity list" where
  "slice_stage options arr =
     (let off = (case opt offset options of None \<Rightarrow> 0 | Some n \<Rightarrow> n);
          lim = (case opt limit options of None \<Rightarrow> int (length arr) | Some n \<Rightarrow> n)
      in slice arr off (off + lim))"

definition list :: "(string \<Rightarrow> number) \<Rightarrow> QueryOptions option \<Rightarrow> store \<Rightarrow> error + entity list" where
  "list tn options s =
     (case sort_stage tn options (Map_values (entries s)) of
        Inl e \<Rightarrow> Inl e
      | Inr arr \<Rightarrow> Inr (slice_stage options arr))"

section \<open>Filters\<close>

text \<open>
  The operands of a per-field operator set have the kinds \<open>FieldFilter\<close> declares:
  strings for the substring tests, numbers for the numeric comparisons, dates for
  \<open>before\<close> and \<open>after\<close>, a pair of numbers or of dates for \<open>between\<close>, any value
  for \<open>eq\<close> (\<open>Undefined\<close> when the operator is absent). The matcher picks its branch by
  the kind of the record's value, so an operator set can meet a value of another kind.
\<close>

datatype range = NumRange number number | DateRange date date

record FieldFilter =
  ff_eq :: val
  ff_contains :: "string option"
  ff_startsWith :: "string option"
  ff_endsWith :: "string option"
  ff_lt :: "number option"
  ff_lte :: "number option"
  ff_gt :: "number option"
  ff_gte :: "number option"
  ff_before :: "date option"
  ff_after :: "date option"
  ff_between :: "range option"

text \<open>
  A filter object: its \<open>$and\<close> and \<open>$or\<close> groups (\<open>None\<close> when absent) and its other
  keys in the order \<open>Object.keys\<close> lists them, each with its operator set (\<open>None\<close>
  when null or undefined).
\<close>

datatype Filter =
  Filter (f_and: "Filter list option") (f_or: "Filter list option")
         (f_keys: "(string \<times> FieldFilter option) list")

fun startsWith :: "string \<Rightarrow> string \<Rightarrow> bool" where
  "startsWith s [] = True"
| "startsWith [] (p # ps) = False"
| "startsWith (c # cs) (p # ps) = (c = p \<and> startsWith cs ps)"

definition endsWith :: "string \<Rightarrow> string \<Rightarrow> bool" where
  "endsWith s p = startsWith (rev s) (rev p)"

fun str_includes :: "string \<Rightarrow> string \<Rightarrow> bool" where
  "str_includes [] p = (p = [])"
| "str_includes (c # cs) p = (startsWith (c # cs) p \<or> str_includes cs p)"

text \<open>
  The checks of one key of the filter against the record's value \<open>v\<close> at that key:
  \<open>Inr False\<close> is the matcher's \<open>return false\<close>, \<open>Inr True\<close> is falling through to
  the next key. Calling \<open>getTime\<close> on an operand that is not a date raises.
\<close>

definition check_string :: "string \<Rightarrow> FieldFilter \<Rightarrow> error + bool" where
  "check_string s ff =
     (if ff_eq ff \<noteq> Undefined \<and> \<not> strict_eq (Str s) (ff_eq ff) then Inr False
      else if (case ff_contains ff of None \<Rightarrow> False | Some p \<Rightarrow> \<not> str_includes s p) then Inr False
      else if (case ff_startsWith ff of None \<Rightarrow> False | Some p \<Rightarrow> \<not> startsWith s p) then Inr False
      else if (case ff_endsWith ff of None \<Rightarrow> False | Some p \<Rightarrow> \<not> endsWith s p) then Inr False
      else Inr True)"

definition check_number :: "number \<Rightarrow> FieldFilter \<Rightarrow> error + bool" where
  "check_number x ff =
     (if ff_eq ff \<noteq> Undefined \<and> \<not> strict_eq (Num x) (ff_eq ff) then Inr False
      else if (case ff_lt ff of None \<Rightarrow> False | Some y \<Rightarrow> \<not> num_lt x y) then Inr False
      else if (case ff_lte ff of None \<Rightarrow> False | Some y \<Rightarrow> \<not> num_le x y) then Inr False
      else if (case ff_gt ff of None \<Rightarrow> False | Some y \<Rightarrow> \<not> num_gt x y) then Inr False
      else if (case ff_gte ff of None \<Rightarrow> False | Some y \<Rightarrow> \<not> num_ge x y) then Inr False
      else (case ff_between ff of
              None \<Rightarrow> Inr True
            | Some (NumRange a b) \<Rightarrow>
                if \<not> (num_ge x a \<and> num_le x b) then Inr False else Inr True
            | Some (DateRange a b) \<Rightarrow>
                if \<not> (num_ge x (getTime a) \<and> num_le x (getTime b)) then Inr False
                else Inr True))"

definition check_date_between :: "number \<Rightarrow> FieldFilter \<Rightarrow> error + bool" where
  "check_date_between vtime ff =
     (case ff_between ff of
        None \<Rightarrow> Inr True
      | Some (NumRange a b) \<Rightarrow> Inl TypeError
      | Some (DateRange a b) \<Rightarrow>
          if \<not> (num_ge vtime (getTime a) \<and> num_le vtime (getTime b)) then Inr False
          else Inr True)"

definition check_date_rest :: "number \<Rightarrow> FieldFilter \<Rightarrow> error + bool" where
  "check_date_rest vtime ff =
     (if (case ff_before ff of None \<Rightarrow> False | Some d \<Rightarrow> \<not> num_lt vtime (getTime d))
      then Inr False
      else if (case ff_after ff of None \<Rightarrow> False | Some d \<Rightarrow> \<not> num_gt vtime (getTime d))
      then Inr False
      else check_date_between vtime ff)"

definition check_date :: "date \<Rightarrow> FieldFilter \<Rightarrow> error + bool" where
  "check_date d ff =
     (let vtime = getTime d
      in case ff_eq ff of
           Undefined \<Rightarrow> check_date_rest vtime ff
         | DateV e \<Rightarrow>
             if \<not> num_eq vtime (getTime e) then Inr False else check_date_rest vtime ff
         | _ \<Rightarrow> Inl TypeError)"

definition check_other :: "val \<Rightarrow> FieldFilter \<Rightarrow> error + bool" where
  "check_other v ff =
     (if ff_eq ff \<noteq> Undefined \<and> \<not> strict_eq v (ff_eq ff) then Inr False else Inr True)"

definition check_value :: "val \<Rightarrow> FieldFilter \<Rightarrow> error + bool" where
  "check_value v ff =
     (case v of
        Str s \<Rightarrow> check_string s ff
      | Num x \<Rightarrow> check_number x ff
      | DateV d \<Rightarrow> check_date d ff
      | _ \<Rightarrow> check_other v ff)"

text \<open>The loop over the keys of the filter.\<close>

fun check_keys :: "entity \<Rightarrow> (string \<times> FieldFilter option) list \<Rightarrow> error + bool" where
  "check_keys item [] = Inr True"
| "check_keys item ((k, ffo) # rest) =
     (if k = ''$and'' \<or> k = ''$or'' then check_keys item rest
      else (case ffo of
              None \<Rightarrow> check_keys item rest
            | Some ff \<Rightarrow>
                (case check_value (getProp item k) ff of
                   Inl e \<Rightarrow> Inl e
                 | Inr ok \<Rightarrow> if ok then check_keys item rest else Inr False)))"

text \<open>
  \<open>matchesFilter\<close>, with \<open>every\<close> and \<open>some\<close> as the two loops they are: both stop at
  the first sub-filter that decides, and an error ends them.
\<close>

fun matchesFilter :: "entity \<Rightarrow> Filter option \<Rightarrow> error + bool"
  and every_matches :: "entity \<Rightarrow> Filter list \<Rightarrow> error + bool"
  and some_matches :: "entity \<Rightarrow> Filter list \<Rightarrow> error + bool" where
  "matchesFilter item None = Inr True"
| "matchesFilter item (Some (Filter a_group o_group keys)) =
     (if a_group = None \<and> o_group = None \<and> keys = [] then Inr True
      else (case (case a_group of None \<Rightarrow> Inr True | Some fs \<Rightarrow> every_matches item fs) of
              Inl e \<Rightarrow> Inl e
            | Inr all_ok \<Rightarrow>
                if \<not> all_ok then Inr False
                else (case (case o_group of None \<Rightarrow> Inr True | Some fs \<Rightarrow> some_matches item fs) of
                        Inl e \<Rightarrow> Inl e
                      | Inr some_ok \<Rightarrow>
                          if \<not> some_ok then Inr False else check_keys item keys)))"
| "every_matches item [] = Inr True"
| "every_matches item (f # fs) =
     (case matchesFilter item (Some f) of
        Inl e \<Rightarrow> Inl e
      | Inr ok \<Rightarrow> if ok then every_matches item fs else Inr False)"
| "some_matches item [] = Inr False"
| "some_matches item (f # fs) =
     (case matchesFilter item (Some f) of
        Inl e \<Rightarrow> Inl e
      | Inr ok \<Rightarrow> if ok then Inr True else some_matches item fs)"

text \<open>\<open>Array.prototype.filter\<close> with the matcher as its predicate.\<close>

fun filter_matching :: "Filter option \<Rightarrow> entity list \<Rightarrow> error + entity list" where
  "filter_matching flt [] = Inr []"
| "filter_matching flt (item # items) =
     (case matchesFilter item flt of
        Inl e \<Rightarrow> Inl e
      | Inr ok \<Rightarrow>
          (case filter_matching flt items of
             Inl e \<Rightarrow> Inl e
           | Inr rest \<Rightarrow> Inr (if ok then item # rest else rest)))"

definition query ::
  "(string \<Rightarrow> number) \<Rightarrow> Filter option \<Rightarrow> QueryOptions option \<Rightarrow> store \<Rightarrow> error + entity list" where
  "query tn flt options s =
     (case filter_matching flt (Map_values (entries s)) of
        Inl e \<Rightarrow> Inl e
      | Inr matches \<Rightarrow>
          (case sort_stage tn options matches of
             Inl e \<Rightarrow> Inl e
           | Inr result \<Rightarrow> Inr (slice_stage options result)))"

section \<open>Transactions\<close>

text \<open>
  The transaction view forwards every operation to the store it was made for.
\<close>

definition TransactionalProxy_create :: "nat \<Rightarrow> entity \<Rightarrow> store \<Rightarrow> (error + entity) \<times> store" where
  "TransactionalProxy_create now item ds = create now item ds"

definition TransactionalProxy_get :: "val \<Rightarrow> store \<Rightarrow> entity option \<times> store" where
  "TransactionalProxy_get key ds = get key ds"

definition TransactionalProxy_update :: "val \<Rightarrow> entity \<Rightarrow> store \<Rightarrow> (error + entity) \<times> store" where
  "TransactionalProxy_update key patch ds = update key patch ds"

definition TransactionalProxy_delete :: "val \<Rightarrow> store \<Rightarrow> bool \<times> store" where
  "TransactionalProxy_delete key ds = delete key ds"

definition TransactionalProxy_list ::
  "(string \<Rightarrow> number) \<Rightarrow> QueryOptions option \<Rightarrow> store \<Rightarrow> error + entity list" where
  "TransactionalProxy_list tn options ds = list tn options ds"

definition TransactionalProxy_query ::
  "(string \<Rightarrow> number) \<Rightarrow> Filter option \<Rightarrow> QueryOptions option \<Rightarrow> store \<Rightarrow> error + entity list" where
  "TransactionalProxy_query tn flt options ds = query tn flt options ds"

text \<open>
  The function passed to \<open>transaction\<close> is the caller's code. What it does to the store
  it does through the view, so it is modelled by the calls it makes: it returns, it
  raises, or it calls an operation of the view and goes on from the outcome of the call,
  which for an operation that can raise is the error (caught by the function) or the
  result. A \<open>create\<close> carries the clock reading of its key generation.
\<close>

datatype 'r body =
    Return 'r
  | Throw error
  | Call_create nat entity "error + entity \<Rightarrow> 'r body"
  | Call_get val "entity option \<Rightarrow> 'r body"
  | Call_update val entity "error + entity \<Rightarrow> 'r body"
  | Call_delete val "bool \<Rightarrow> 'r body"
  | Call_list "QueryOptions option" "error + entity list \<Rightarrow> 'r body"
  | Call_query "Filter option" "QueryOptions option" "error + entity list \<Rightarrow> 'r body"

primrec run_body :: "(string \<Rightarrow> number) \<Rightarrow> 'r body \<Rightarrow> store \<Rightarrow> (error + 'r) \<times> store" where
  "run_body tn (Return r) ds = (Inr r, ds)"
| "run_body tn (Throw e) ds = (Inl e, ds)"
| "run_body tn (Call_create now item k) ds =
     (case TransactionalProxy_create now item ds of (res, ds') \<Rightarrow> run_body tn (k res) ds')"
| "run_body tn (Call_get key k) ds =
     (case TransactionalProxy_get key ds of (res, ds') \<Rightarrow> run_body tn (k res) ds')"
| "run_body tn (Call_update key patch k) ds =
     (case TransactionalProxy_update key patch ds of (res, ds') \<Rightarrow> run_body tn (k res) ds')"
| "run_body tn (Call_delete key k) ds =
     (case TransactionalProxy_delete key ds of (res, ds') \<Rightarrow> run_body tn (k res) ds')"
| "run_body tn (Call_list options k) ds =
     run_body tn (k (TransactionalProxy_list tn options ds)) ds"
| "run_body tn (Call_query flt options k) ds =
     run_body tn (k (TransactionalProxy_query tn flt options ds)) ds"

definition transaction :: "(string \<Rightarrow> number) \<Rightarrow> 'r body \<Rightarrow> store \<Rightarrow> (error + 'r) \<times> store" where
  "transaction tn fn s =
     (let snapshot = entries s
      in case run_body tn fn s of
           (Inr res, s') \<Rightarrow> (Inr res, emit (Info ''transaction.commit'') s')
         | (Inl err, s') \<Rightarrow>
             (Inl err, emit (Warn ''transaction.rollback'') (s'\<lparr>entries := snapshot\<rparr>)))"

section \<open>Sequences of public operations\<close>

datatype 'r call =
    Create nat entity
  | Get val
  | Update val entity
  | Delete val
  | List "QueryOptions option"
  | Query "Filter option" "QueryOptions option"
  | Transaction "'r body"
  | Clear

text \<open>The store after a call, whether the call returned or raised.\<close>

fun perform :: "(string \<Rightarrow> number) \<Rightarrow> 'r call \<Rightarrow> store \<Rightarrow> store" where
  "perform tn (Create now item) s = snd (create now item s)"
| "perform tn (Get key) s = snd (get key s)"
| "perform tn (Update key patch) s = snd (update key patch s)"
| "perform tn (Delete key) s = snd (delete key s)"
| "perform tn (List options) s = s"
| "perform tn (Query flt options) s = s"
| "perform tn (Transaction fn) s = snd (transaction tn fn s)"
| "perform tn Clear s = clear s"

fun perform_all :: "(string \<Rightarrow> number) \<Rightarrow> 'r call list \<Rightarrow> store \<Rightarrow> store" where
  "perform_all tn [] s = s"
| "perform_all tn (c # cs) s = perform_all tn cs (perform tn c s)"

text \<open>
  A patch of the type \<open>Update\<close> has no key field. A function passed to \<open>transaction\<close>
  keeps to that type when every \<open>update\<close> it can come to make does.
\<close>

primrec body_typed :: "string \<Rightarrow> 'r body \<Rightarrow> bool" where
  "body_typed kn (Return r) = True"
| "body_typed kn (Throw e) = True"
| "body_typed kn (Call_create now item k) = (\<forall>res. body_typed kn (k res))"
| "body_typed kn (Call_get key k) = (\<forall>res. body_typed kn (k res))"
| "body_typed kn (Call_update key patch k) = (patch kn = None \<and> (\<forall>res. body_typed kn (k res)))"
| "body_typed kn (Call_delete key k) = (\<forall>res. body_typed kn (k res))"
| "body_typed kn (Call_list options k) = (\<forall>res. body_typed kn (k res))"
| "body_typed kn (Call_query flt options k) = (\<forall>res. body_typed kn (k res))"

fun call_typed :: "string \<Rightarrow> 'r call \<Rightarrow> bool" where
  "call_typed kn (Update key patch) = (patch kn = None)"
| "call_typed kn (Transaction fn) = body_typed kn fn"
| "call_typed kn _ = True"

text \<open>
  The invariant of the data model: every record is stored under its own key-field value,
  and no two records share a key-field value.
\<close>

definition store_inv :: "store \<Rightarrow> bool" where
  "store_inv s =
     ((\<forall>e \<in> set (entries s). snd e (keyName s) = Some (fst e)) \<and>
      distinct (map (\<lambda>e. getProp (snd e) (keyName s)) (entries s)))"

text \<open>
  The calls a function passed to \<open>transaction\<close> makes through the view, in order, when
  it is run on the store \<open>ds\<close>.
\<close>

primrec calls_made :: "(string \<Rightarrow> number) \<Rightarrow> 'r body \<Rightarrow> store \<Rightarrow> 'q call list" where
  "calls_made tn (Return r) ds = []"
| "calls_made tn (Throw e) ds = []"
| "calls_made tn (Call_create now item k) ds =
     Create now item #
     (case TransactionalProxy_create now item ds of (res, ds') \<Rightarrow> calls_made tn (k res) ds')"
| "calls_made tn (Call_get key k) ds =
     Get key #
     (case TransactionalProxy_get key ds of (res, ds') \<Rightarrow> calls_made tn (k res) ds')"
| "calls_made tn (Call_update key patch k) ds =
     Update key patch #
     (case TransactionalProxy_update key patch ds of (res, ds') \<Rightarrow> calls_made tn (k res) ds')"
| "calls_made tn (Call_delete key k) ds =
     Delete key #
     (case TransactionalProxy_delete key ds of (res, ds') \<Rightarrow> calls_made tn (k res) ds')"
| "calls_made tn (Call_list options k) ds =
     List options # calls_made tn (k (TransactionalProxy_list tn options ds)) ds"
| "calls_made tn (Call_query flt options k) ds =
     Query flt options # calls_made tn (k (TransactionalProxy_query tn flt options ds)) ds"

section \<open>Inputs on which the language raises no error\<close>

text \<open>The operator set with no operator, \<open>{}\<close>.\<close>

definition no_operators :: FieldFilter where
  "no_operators =
     \<lparr>ff_eq = Undefined, ff_contains = None, ff_startsWith = None, ff_endsWith = None,
      ff_lt = None, ff_lte = None, ff_gt = None, ff_gte = None,
      ff_before = None, ff_after = None, ff_between = None\<rparr>"







section \<open>Facts about the map and the invariant\<close>

lemma map_of_Map_set: "map_of (Map_set m k v) = (map_of m)(k \<mapsto> v)"
  by (induction m) (auto simp: fun_eq_iff)

lemma Map_set_absent: "map_of m k = None \<Longrightarrow> Map_set m k v = m @ [(k, v)]"
  by (induction m) (auto split: if_splits)

lemma map_fst_Map_set_present: "map_of m k \<noteq> None \<Longrightarrow> map fst (Map_set m k v) = map fst m"
  by (induction m) (auto split: if_splits)

lemma set_Map_set_subset: "set (Map_set m k v) \<subseteq> insert (k, v) (set m)"
  by (induction m) (auto split: if_splits)

lemma distinct_Map_set:
  assumes "distinct (map fst m)"
  shows "distinct (map fst (Map_set m k v))"
proof (cases "map_of m k")
  case None
  then have "k \<notin> fst ` set m" by (simp add: map_of_eq_None_iff)
  with assms None show ?thesis by (simp add: Map_set_absent)
next
  case (Some a)
  with assms show ?thesis by (simp add: map_fst_Map_set_present)
qed

lemma toString_radix_digit: "n < base \<Longrightarrow> toString_radix base n = [digit_char n]"
  by (simp add: toString_radix.simps[of base n])

lemma Map_set_cases:
  "e \<in> set (Map_set m k v) \<Longrightarrow> e = (k, v) \<or> e \<in> set m"
  using set_Map_set_subset[of m k v] by blast

lemma store_inv_keys:
  "store_inv s \<longleftrightarrow>
     (\<forall>e \<in> set (entries s). snd e (keyName s) = Some (fst e)) \<and> distinct (map fst (entries s))"
proof (cases "\<forall>e \<in> set (entries s). snd e (keyName s) = Some (fst e)")
  case True
  then have eq: "map (\<lambda>e. getProp (snd e) (keyName s)) (entries s) = map fst (entries s)"
    by (intro map_cong) (auto simp: getProp_def)
  show ?thesis unfolding store_inv_def eq by (rule refl)
next
  case False
  then show ?thesis unfolding store_inv_def by blast
qed

lemma keyName_create: "keyName (snd (create now item s)) = keyName s"
  by (simp add: create_def generateId_def emit_def Let_def split: prod.splits)

lemma keyName_update: "keyName (snd (update key patch s)) = keyName s"
  by (simp add: update_def emit_def Let_def split: option.splits)

lemma keyName_delete: "keyName (snd (delete key s)) = keyName s"
  by (simp add: delete_def emit_def Let_def)

lemma keyName_get: "keyName (snd (get key s)) = keyName s"
  by (simp add: get_def emit_def)

lemma store_inv_create:
  assumes "store_inv s"
  shows "store_inv (snd (create now item s))"
proof -
  have "\<forall>e \<in> set (Map_set (entries s) k (item(keyName s \<mapsto> k))). snd e (keyName s) = Some (fst e)" for k
    using assms by (auto simp: store_inv_keys dest!: Map_set_cases)
  moreover have "distinct (map fst (Map_set (entries s) k r))" for k r
    using assms by (simp add: store_inv_keys distinct_Map_set)
  ultimately show ?thesis
    using assms
    by (simp add: store_inv_keys create_def generateId_def emit_def Let_def split: prod.splits)
qed

lemma store_inv_update:
  assumes "store_inv s" and "patch (keyName s) = None"
  shows "store_inv (snd (update key patch s))"
proof (cases "Map_get (entries s) key")
  case None
  with assms show ?thesis by (simp add: update_def)
next
  case (Some existing)
  then have "(key, existing) \<in> set (entries s)"
    by (simp add: Map_get_def map_of_SomeD)
  with assms have k: "(existing ++ patch) (keyName s) = Some key"
    by (auto simp: store_inv_keys map_add_def)
  have "snd e (keyName s) = Some (fst e)"
    if "e \<in> set (Map_set (entries s) key (existing ++ patch))" for e
  proof -
    from Map_set_cases[OF that] show ?thesis
    proof
      assume "e = (key, existing ++ patch)"
      with k show ?thesis by simp
    next
      assume "e \<in> set (entries s)"
      with assms(1) show ?thesis by (simp add: store_inv_keys)
    qed
  qed
  then have "\<forall>e \<in> set (Map_set (entries s) key (existing ++ patch)). snd e (keyName s) = Some (fst e)"
    by blast
  moreover have "distinct (map fst (Map_set (entries s) key (existing ++ patch)))"
    using assms(1) by (simp add: store_inv_keys distinct_Map_set)
  ultimately show ?thesis
    using Some by (simp add: store_inv_keys update_def emit_def Let_def)
qed

lemma store_inv_delete:
  assumes "store_inv s"
  shows "store_inv (snd (delete key s))"
  using assms
  by (auto simp: store_inv_keys delete_def emit_def Let_def Map_delete_def distinct_map_filter)

lemma store_inv_get: "store_inv s \<Longrightarrow> store_inv (snd (get key s))"
  by (simp add: store_inv_def get_def emit_def)

lemma store_inv_clear: "store_inv (clear s)"
  by (simp add: store_inv_def clear_def emit_def)

lemma store_inv_DataStore: "store_inv (DataStore kn)"
  by (simp add: store_inv_def DataStore_def)

lemma run_body_inv:
  "body_typed (keyName s) fn \<Longrightarrow> store_inv s \<Longrightarrow>
     store_inv (snd (run_body tn fn s)) \<and> keyName (snd (run_body tn fn s)) = keyName s"
proof (induction fn arbitrary: s)
  case (Return r)
  then show ?case by simp
next
  case (Throw e)
  then show ?case by simp
next
  case (Call_create now item k)
  obtain res s' where c: "create now item s = (res, s')" by (cases "create now item s")
  have s': "store_inv s'" "keyName s' = keyName s"
    using store_inv_create[OF Call_create.prems(2), of now item] keyName_create[of now item s] c
    by simp_all
  have "body_typed (keyName s') (k res)" using Call_create.prems(1) s' by simp
  from Call_create.IH[OF _ this s'(1)] s' c show ?case
    by (simp add: TransactionalProxy_create_def)
next
  case (Call_get key k)
  obtain res s' where c: "get key s = (res, s')" by (cases "get key s")
  have s': "store_inv s'" "keyName s' = keyName s"
    using store_inv_get[OF Call_get.prems(2), of key] keyName_get[of key s] c
    by simp_all
  have "body_typed (keyName s') (k res)" using Call_get.prems(1) s' by simp
  from Call_get.IH[OF _ this s'(1)] s' c show ?case
    by (simp add: TransactionalProxy_get_def)
next
  case (Call_update key patch k)
  obtain res s' where c: "update key patch s = (res, s')" by (cases "update key patch s")
  have "patch (keyName s) = None" using Call_update.prems(1) by simp
  then have s': "store_inv s'" "keyName s' = keyName s"
    using store_inv_update[OF Call_update.prems(2), of patch key] keyName_update[of key patch s] c
    by simp_all
  have "body_typed (keyName s') (k res)" using Call_update.prems(1) s' by simp
  from Call_update.IH[OF _ this s'(1)] s' c show ?case
    by (simp add: TransactionalProxy_update_def)
next
  case (Call_delete key k)
  obtain res s' where c: "delete key s = (res, s')" by (cases "delete key s")
  have s': "store_inv s'" "keyName s' = keyName s"
    using store_inv_delete[OF Call_delete.prems(2), of key] keyName_delete[of key s] c
    by simp_all
  have "body_typed (keyName s') (k res)" using Call_delete.prems(1) s' by simp
  from Call_delete.IH[OF _ this s'(1)] s' c show ?case
    by (simp add: TransactionalProxy_delete_def)
next
  case (Call_list options k)
  have "body_typed (keyName s) (k (TransactionalProxy_list tn options s))"
    using Call_list.prems(1) by simp
  from Call_list.IH[OF _ this Call_list.prems(2)] show ?case by simp
next
  case (Call_query flt options k)
  have "body_typed (keyName s) (k (TransactionalProxy_query tn flt options s))"
    using Call_query.prems(1) by simp
  from Call_query.IH[OF _ this Call_query.prems(2)] show ?case by simp
qed

lemma transaction_inv:
  assumes "body_typed (keyName s) fn" and "store_inv s"
  shows "store_inv (snd (transaction tn fn s)) \<and> keyName (snd (transaction tn fn s)) = keyName s"
proof -
  obtain res s' where r: "run_body tn fn s = (res, s')" by (cases "run_body tn fn s")
  with run_body_inv[OF assms, of tn] have s': "store_inv s'" "keyName s' = keyName s" by simp_all
  show ?thesis
  proof (cases res)
    case (Inl e)
    with r s' assms(2) show ?thesis
      by (simp add: transaction_def emit_def store_inv_def)
  next
    case (Inr v)
    with r s' show ?thesis
      by (simp add: transaction_def emit_def store_inv_def)
  qed
qed

lemma perform_inv:
  assumes "call_typed (keyName s) c" and "store_inv s"
  shows "store_inv (perform tn c s) \<and> keyName (perform tn c s) = keyName s"
  using assms
  by (cases c)
     (simp_all add: store_inv_create keyName_create store_inv_get keyName_get store_inv_update
        keyName_update store_inv_delete keyName_delete transaction_inv store_inv_clear,
      simp add: clear_def emit_def)

lemma perform_all_inv:
  "\<forall>c \<in> set cs. call_typed (keyName s) c \<Longrightarrow> store_inv s \<Longrightarrow> store_inv (perform_all tn cs s)"
proof (induction cs arbitrary: s)
  case Nil
  then show ?case by simp
next
  case (Cons c cs)
  then have "store_inv (perform tn c s)" "keyName (perform tn c s) = keyName s"
    using perform_inv[of s c tn] by simp_all
  with Cons show ?case by simp
qed

lemma run_body_calls_made:
  "snd (run_body tn fn s) = perform_all tn (calls_made tn fn s) s"
  by (induction fn arbitrary: s)
     (auto simp: TransactionalProxy_create_def TransactionalProxy_get_def
        TransactionalProxy_update_def TransactionalProxy_delete_def split: prod.splits)

section \<open>The store operations\<close>

text \<open>
  Claim C1. \<open>create\<close> resolves the key: the candidate's own key, or a generated one when
  that is \<open>undefined\<close> or \<open>null\<close>. If the resolved key is already in the mapping,
  \<open>create\<close> raises the duplicate-key error and the mapping is unchanged. If it is not,
  \<open>create\<close> returns the candidate with the resolved key under the key field, and the
  mapping is the old one with that record appended under the resolved key.
\<close>

theorem create_duplicate_or_insert:
  assumes "key = getProp item (keyName s)"
    and "finalKey = (if key = Undefined \<or> key = Null then Str (fst (generateId now s)) else key)"
    and "record = item(keyName s \<mapsto> finalKey)"
  shows "(Map_has (entries s) finalKey \<longrightarrow>
            fst (create now item s) = Inl (DuplicateKeyError finalKey) \<and>
            entries (snd (create now item s)) = entries s) \<and>
         (\<not> Map_has (entries s) finalKey \<longrightarrow>
            fst (create now item s) = Inr record \<and>
            entries (snd (create now item s)) = entries s @ [(finalKey, record)] \<and>
            Map_get (entries (snd (create now item s))) finalKey = Some record)"
  using assms
  by (auto simp: create_def generateId_def emit_def Let_def Map_has_def Map_get_def
        Map_set_absent map_add_def split: prod.splits)

theorem create_duplicate_or_insert_witness:
  "fst (create 7 [''name'' \<mapsto> Str ''book''] (DataStore ''id''))
     = Inr [''name'' \<mapsto> Str ''book'', ''id'' \<mapsto> Str ''id_7_1''] \<and>
   fst (create 7 [''id'' \<mapsto> Str ''a'']
         (snd (create 7 [''id'' \<mapsto> Str ''a''] (DataStore ''id''))))
     = Inl (DuplicateKeyError (Str ''a'')) \<and>
   entries (snd (create 7 [''id'' \<mapsto> Str ''a'']
         (snd (create 7 [''id'' \<mapsto> Str ''a''] (DataStore ''id'')))))
     = entries (snd (create 7 [''id'' \<mapsto> Str ''a''] (DataStore ''id'')))"
proof -
  have g: "fst (generateId 7 (DataStore ''id'')) = ''id_7_1''"
    by (simp add: generateId_def DataStore_def toString_radix_digit digit_char_def)
  have a: "\<not> Map_has (entries (DataStore ''id'')) (Str ''id_7_1'')"
    by (simp add: Map_has_def DataStore_def)
  have s1: "entries (snd (create 7 [''id'' \<mapsto> Str ''a''] (DataStore ''id'')))
              = [(Str ''a'', [''id'' \<mapsto> Str ''a''])]"
    by (simp add: create_def getProp_def DataStore_def Map_has_def emit_def Let_def)
  have k1: "keyName (snd (create 7 [''id'' \<mapsto> Str ''a''] (DataStore ''id''))) = ''id''"
    by (simp add: keyName_create DataStore_def)
  have b: "Map_has (entries (snd (create 7 [''id'' \<mapsto> Str ''a''] (DataStore ''id'')))) (Str ''a'')"
    by (simp add: s1 Map_has_def)
  from create_duplicate_or_insert[of "Undefined" "[''name'' \<mapsto> Str ''book'']" "DataStore ''id''"
      "Str ''id_7_1''" 7 "[''name'' \<mapsto> Str ''book'', ''id'' \<mapsto> Str ''id_7_1'']"] g a
  have c1: "fst (create 7 [''name'' \<mapsto> Str ''book''] (DataStore ''id''))
     = Inr [''name'' \<mapsto> Str ''book'', ''id'' \<mapsto> Str ''id_7_1'']"
    by (simp add: getProp_def DataStore_def)
  from create_duplicate_or_insert[of "Str ''a''" "[''id'' \<mapsto> Str ''a'']"
      "snd (create 7 [''id'' \<mapsto> Str ''a''] (DataStore ''id''))" "Str ''a''" 7
      "[''id'' \<mapsto> Str ''a'']"] b k1
  have c2: "fst (create 7 [''id'' \<mapsto> Str ''a'']
         (snd (create 7 [''id'' \<mapsto> Str ''a''] (DataStore ''id''))))
     = Inl (DuplicateKeyError (Str ''a'')) \<and>
   entries (snd (create 7 [''id'' \<mapsto> Str ''a'']
         (snd (create 7 [''id'' \<mapsto> Str ''a''] (DataStore ''id'')))))
     = entries (snd (create 7 [''id'' \<mapsto> Str ''a''] (DataStore ''id'')))"
    by (simp add: getProp_def)
  from c1 c2 show ?thesis by simp
qed

text \<open>
  Claim C2. In every state reached from a new store by a sequence of public operations
  whose patches (those of the transactions' functions included) have no key field,
  every record is stored under its own key-field value and no two records share a
  key-field value.
\<close>

theorem invariant_reachable:
  assumes "\<forall>c \<in> set cs. call_typed kn c"
  shows "store_inv (perform_all tn cs (DataStore kn))"
  using assms perform_all_inv[of cs "DataStore kn" tn] store_inv_DataStore[of kn]
  by (simp add: DataStore_def)

theorem invariant_reachable_witness:
  "store_inv (perform_all (\<lambda>x. NaN)
     [Clear,
      Create 7 [''name'' \<mapsto> Str ''n''],
      Create 7 [''id'' \<mapsto> Str ''a''],
      Update (Str ''a'') [''name'' \<mapsto> Str ''m''],
      Transaction (Call_delete (Str ''a'') (\<lambda>b. Throw (Thrown ''boom'') :: unit body)),
      Get (Str ''a''),
      Delete (Str ''zz''),
      List None,
      Query None None]
     (DataStore ''id''))"
  using invariant_reachable[of
     "[Clear,
      Create 7 [''name'' \<mapsto> Str ''n''],
      Create 7 [''id'' \<mapsto> Str ''a''],
      Update (Str ''a'') [''name'' \<mapsto> Str ''m''],
      Transaction (Call_delete (Str ''a'') (\<lambda>b. Throw (Thrown ''boom'') :: unit body)),
      Get (Str ''a''),
      Delete (Str ''zz''),
      List None,
      Query None None]" "''id''" "\<lambda>x. NaN"]
  by simp

text \<open>
  Claim C3. When the function passed to \<open>transaction\<close> raises an error,
  \<open>transaction\<close> raises that same error and the mapping is the one from before the
  transaction.
\<close>

theorem transaction_rollback:
  assumes "fst (run_body tn fn s) = Inl err"
  shows "fst (transaction tn fn s) = Inl err \<and>
         entries (snd (transaction tn fn s)) = entries s"
  using assms
  by (cases "run_body tn fn s") (simp add: transaction_def emit_def)

theorem transaction_rollback_witness:
  "fst (transaction (\<lambda>x. NaN)
          (Call_create 7 [''id'' \<mapsto> Str ''t2''] (\<lambda>r. Throw (Thrown ''boom'') :: unit body))
          (snd (create 7 [''id'' \<mapsto> Str ''t1''] (DataStore ''id''))))
     = Inl (Thrown ''boom'') \<and>
   entries (snd (transaction (\<lambda>x. NaN)
          (Call_create 7 [''id'' \<mapsto> Str ''t2''] (\<lambda>r. Throw (Thrown ''boom'') :: unit body))
          (snd (create 7 [''id'' \<mapsto> Str ''t1''] (DataStore ''id'')))))
     = [(Str ''t1'', [''id'' \<mapsto> Str ''t1''])]"
proof -
  have s1: "entries (snd (create 7 [''id'' \<mapsto> Str ''t1''] (DataStore ''id'')))
              = [(Str ''t1'', [''id'' \<mapsto> Str ''t1''])]"
    by (simp add: create_def getProp_def DataStore_def Map_has_def emit_def Let_def)
  have h: "fst (run_body (\<lambda>x. NaN)
          (Call_create 7 [''id'' \<mapsto> Str ''t2''] (\<lambda>r. Throw (Thrown ''boom'') :: unit body))
          (snd (create 7 [''id'' \<mapsto> Str ''t1''] (DataStore ''id'')))) = Inl (Thrown ''boom'')"
    by (simp split: prod.splits)
  from transaction_rollback[OF h] s1 show ?thesis by simp
qed

text \<open>
  Claim C4. When the function passed to \<open>transaction\<close> returns, \<open>transaction\<close> returns
  its value, and the mapping is the one that the calls the function made through the
  view produce when applied to the store in order: none is undone, nothing else changes.
\<close>

theorem transaction_commit:
  assumes "fst (run_body tn fn s) = Inr res"
  shows "fst (transaction tn fn s) = Inr res \<and>
         entries (snd (transaction tn fn s)) =
           entries (perform_all tn (calls_made tn fn s :: 'q call list) s)"
proof -
  obtain s' where r: "run_body tn fn s = (Inr res, s')"
    using assms by (cases "run_body tn fn s") simp
  have "snd (run_body tn fn s) = perform_all tn (calls_made tn fn s :: 'q call list) s"
    by (rule run_body_calls_made)
  with r have "s' = perform_all tn (calls_made tn fn s :: 'q call list) s"
    by simp
  with r show ?thesis by (simp add: transaction_def emit_def)
qed

theorem transaction_commit_witness:
  "fst (transaction (\<lambda>x. NaN)
          (Call_create 7 [''id'' \<mapsto> Str ''t2''] (\<lambda>r. Return (5::nat)))
          (snd (create 7 [''id'' \<mapsto> Str ''t1''] (DataStore ''id''))))
     = Inr 5 \<and>
   entries (snd (transaction (\<lambda>x. NaN)
          (Call_create 7 [''id'' \<mapsto> Str ''t2''] (\<lambda>r. Return (5::nat)))
          (snd (create 7 [''id'' \<mapsto> Str ''t1''] (DataStore ''id'')))))
     = [(Str ''t1'', [''id'' \<mapsto> Str ''t1'']), (Str ''t2'', [''id'' \<mapsto> Str ''t2''])]"
proof -
  have h: "fst (run_body (\<lambda>x. NaN)
          (Call_create 7 [''id'' \<mapsto> Str ''t2''] (\<lambda>r. Return (5::nat)))
          (snd (create 7 [''id'' \<mapsto> Str ''t1''] (DataStore ''id'')))) = Inr 5"
    by (simp split: prod.splits)
  have e: "entries (perform_all (\<lambda>x. NaN)
          (calls_made (\<lambda>x. NaN) (Call_create 7 [''id'' \<mapsto> Str ''t2''] (\<lambda>r. Return (5::nat)))
             (snd (create 7 [''id'' \<mapsto> Str ''t1''] (DataStore ''id''))) :: unit call list)
          (snd (create 7 [''id'' \<mapsto> Str ''t1''] (DataStore ''id''))))
     = [(Str ''t1'', [''id'' \<mapsto> Str ''t1'']), (Str ''t2'', [''id'' \<mapsto> Str ''t2''])]"
    by (simp add: TransactionalProxy_create_def create_def getProp_def DataStore_def
          Map_has_def emit_def Let_def split: prod.splits)
  from transaction_commit[OF h, where ?'q = unit] e show ?thesis by simp
qed

text \<open>
  Claim C5. In a store of the data model (each record under its own key-field value),
  for a key \<open>k\<close> that is present and a patch without the key field, \<open>update\<close> returns
  a record whose key field is \<open>k\<close>, whose patched fields have the patch's values and
  whose other fields are those of the record that was stored; that record is now stored
  under \<open>k\<close>, every other key maps to what it mapped to, and the keys keep their order.
\<close>

theorem update_merges_patch:
  assumes "store_inv s"
    and "Map_get (entries s) k = Some existing"
    and "patch (keyName s) = None"
  shows "\<exists>updated.
           fst (update k patch s) = Inr updated \<and>
           getProp updated (keyName s) = k \<and>
           (\<forall>f v. patch f = Some v \<longrightarrow> updated f = Some v) \<and>
           (\<forall>f. patch f = None \<longrightarrow> updated f = existing f) \<and>
           Map_get (entries (snd (update k patch s))) k = Some updated \<and>
           (\<forall>k'. k' \<noteq> k \<longrightarrow>
              Map_get (entries (snd (update k patch s))) k' = Map_get (entries s) k') \<and>
           map fst (entries (snd (update k patch s))) = map fst (entries s)"
proof -
  from assms(2) have "(k, existing) \<in> set (entries s)"
    by (simp add: Map_get_def map_of_SomeD)
  with assms(1) have "existing (keyName s) = Some k"
    by (auto simp: store_inv_keys)
  with assms(3) have key: "getProp (existing ++ patch) (keyName s) = k"
    by (simp add: getProp_def map_add_def)
  have "map fst (Map_set (entries s) k (existing ++ patch)) = map fst (entries s)"
    using assms(2) by (simp add: Map_get_def map_fst_Map_set_present)
  with key assms(2) show ?thesis
    by (simp add: update_def emit_def Let_def Map_get_def map_of_Map_set map_add_def)
qed

theorem update_merges_patch_witness:
  "\<exists>updated.
     fst (update (Str ''a'') [''price'' \<mapsto> Num (Finite 25)]
           (snd (create 7 [''id'' \<mapsto> Str ''a'', ''price'' \<mapsto> Num (Finite 20)] (DataStore ''id''))))
       = Inr updated \<and>
     getProp updated ''id'' = Str ''a'' \<and>
     updated ''price'' = Some (Num (Finite 25))"
proof -
  let ?s = "snd (create 7 [''id'' \<mapsto> Str ''a'', ''price'' \<mapsto> Num (Finite 20)] (DataStore ''id''))"
  have i: "store_inv ?s"
    by (rule store_inv_create) (rule store_inv_DataStore)
  have g: "Map_get (entries ?s) (Str ''a'')
             = Some [''id'' \<mapsto> Str ''a'', ''price'' \<mapsto> Num (Finite 20), ''id'' \<mapsto> Str ''a'']"
    by (simp add: create_def getProp_def DataStore_def Map_has_def Map_get_def emit_def Let_def)
  have k: "keyName ?s = ''id''"
    by (simp add: keyName_create DataStore_def)
  have p: "[''price'' \<mapsto> Num (Finite 25)] (keyName ?s) = None"
    by (simp add: k)
  from update_merges_patch[of ?s "Str ''a''" _ "[''price'' \<mapsto> Num (Finite 25)]"] i g p
  show ?thesis
    by (auto simp: k)
qed

text \<open>
  Claim C6. \<open>update\<close> raises the not-found error exactly when no record is stored under
  the key; it raises no other error, and when it raises the mapping is unchanged.
\<close>

theorem update_not_found:
  "(fst (update k patch s) = Inl NotFoundError \<longleftrightarrow> Map_get (entries s) k = None) \<and>
   (\<forall>e. fst (update k patch s) = Inl e \<longrightarrow>
        e = NotFoundError \<and> entries (snd (update k patch s)) = entries s)"
  by (auto simp: update_def Let_def split: option.splits)

theorem update_not_found_witness:
  "fst (update (Str ''zz'') [''price'' \<mapsto> Num (Finite 25)] (DataStore ''id'')) = Inl NotFoundError \<and>
   entries (snd (update (Str ''zz'') [''price'' \<mapsto> Num (Finite 25)] (DataStore ''id''))) = []"
proof -
  have "Map_get (entries (DataStore ''id'')) (Str ''zz'') = None"
    by (simp add: Map_get_def DataStore_def)
  with update_not_found[of "Str ''zz''" "[''price'' \<mapsto> Num (Finite 25)]" "DataStore ''id''"]
  show ?thesis by (simp add: DataStore_def)
qed

text \<open>
  Claim C10. A patch that does contain the key field, with a value \<open>k'\<close> other than the
  key \<open>k\<close> it is applied to, is not rejected: \<open>update\<close> succeeds and leaves, stored
  under \<open>k\<close>, a record whose key field is \<open>k'\<close>. When \<open>k'\<close> is not itself a key of
  the store, \<open>get k'\<close> finds nothing, and the invariant of the data model is broken.
\<close>

theorem update_with_key_in_patch:
  assumes "Map_get (entries s) k = Some existing"
    and "patch (keyName s) = Some k'"
    and "k' \<noteq> k"
    and "Map_get (entries s) k' = None"
  shows "\<exists>updated.
           fst (update k patch s) = Inr updated \<and>
           Map_get (entries (snd (update k patch s))) k = Some updated \<and>
           getProp updated (keyName s) = k' \<and>
           fst (get k' (snd (update k patch s))) = None \<and>
           \<not> store_inv (snd (update k patch s))"
proof -
  let ?u = "existing ++ patch"
  let ?s' = "snd (update k patch s)"
  have e: "entries ?s' = Map_set (entries s) k ?u" and kn: "keyName ?s' = keyName s"
    and r: "fst (update k patch s) = Inr ?u"
    using assms(1) by (simp_all add: update_def emit_def Let_def)
  have g: "Map_get (entries ?s') k = Some ?u"
    by (simp add: e Map_get_def map_of_Map_set)
  have p: "?u (keyName s) = Some k'"
    using assms(2) by (simp add: map_add_def)
  have "(k, ?u) \<in> set (entries ?s')"
    using g by (simp add: Map_get_def map_of_SomeD)
  then have "snd (k, ?u) (keyName ?s') = Some (fst (k, ?u))" if "store_inv ?s'"
    using that unfolding store_inv_def by blast
  with p assms(3) kn have "\<not> store_inv ?s'"
    by auto
  moreover have "fst (get k' ?s') = None"
    using assms(3,4) by (simp add: get_def e Map_get_def map_of_Map_set)
  ultimately show ?thesis using r g p by (simp add: getProp_def)
qed

theorem update_with_key_in_patch_witness:
  "\<exists>updated.
     fst (update (Str ''a'') [''id'' \<mapsto> Str ''b'']
           (snd (create 7 [''id'' \<mapsto> Str ''a''] (DataStore ''id'')))) = Inr updated \<and>
     Map_get (entries (snd (update (Str ''a'') [''id'' \<mapsto> Str ''b'']
           (snd (create 7 [''id'' \<mapsto> Str ''a''] (DataStore ''id'')))))) (Str ''a'') = Some updated \<and>
     getProp updated ''id'' = Str ''b'' \<and>
     fst (get (Str ''b'') (snd (update (Str ''a'') [''id'' \<mapsto> Str ''b'']
           (snd (create 7 [''id'' \<mapsto> Str ''a''] (DataStore ''id'')))))) = None"
proof -
  let ?s = "snd (create 7 [''id'' \<mapsto> Str ''a''] (DataStore ''id''))"
  have e: "entries ?s = [(Str ''a'', [''id'' \<mapsto> Str ''a''])]"
    by (simp add: create_def getProp_def DataStore_def Map_has_def emit_def Let_def)
  have k: "keyName ?s = ''id''"
    by (simp add: keyName_create DataStore_def)
  have g: "Map_get (entries ?s) (Str ''a'') = Some [''id'' \<mapsto> Str ''a'']"
    by (simp add: e Map_get_def)
  have p: "[''id'' \<mapsto> Str ''b''] (keyName ?s) = Some (Str ''b'')"
    by (simp add: k)
  have n: "Map_get (entries ?s) (Str ''b'') = None"
    by (simp add: e Map_get_def)
  from update_with_key_in_patch[of ?s "Str ''a''" _ "[''id'' \<mapsto> Str ''b'']" "Str ''b''"] g p n
  show ?thesis
    by (auto simp: k)
qed

section \<open>Filtering\<close>

lemma num_le_Finite: "num_le (Finite a) (Finite b) = (a \<le> b)"
  by (auto simp: num_le_def)

lemma matches_between:
  assumes "f \<noteq> ''$and''" and "f \<noteq> ''$or''" and "getProp item f = Num v"
  shows "matchesFilter item
           (Some (Filter None None
              [(f, Some (no_operators\<lparr>ff_between := Some (NumRange low high)\<rparr>))]))
         = Inr (num_le low v \<and> num_le v high)"
  using assms
  by (simp add: check_value_def check_number_def no_operators_def num_ge_def)

lemma three_creates:
  "Map_values (entries (perform_all (\<lambda>x. NaN)
      ([Create 7 [''name'' \<mapsto> Str ''Alice'', ''age'' \<mapsto> Num (Finite 25)],
        Create 7 [''name'' \<mapsto> Str ''Bob'', ''age'' \<mapsto> Num (Finite 35)],
        Create 7 [''name'' \<mapsto> Str ''Charlie'', ''age'' \<mapsto> Num (Finite 45)]] :: unit call list)
      (DataStore ''id'')))
   = [[''name'' \<mapsto> Str ''Alice'', ''age'' \<mapsto> Num (Finite 25), ''id'' \<mapsto> Str ''id_7_1''],
      [''name'' \<mapsto> Str ''Bob'', ''age'' \<mapsto> Num (Finite 35), ''id'' \<mapsto> Str ''id_7_2''],
      [''name'' \<mapsto> Str ''Charlie'', ''age'' \<mapsto> Num (Finite 45), ''id'' \<mapsto> Str ''id_7_3'']]"
  by (simp add: create_def generateId_def getProp_def DataStore_def Map_has_def Map_values_def
        emit_def Let_def toString_radix_digit digit_char_def)

text \<open>
  Claim C9. The numeric \<open>between\<close> is inclusive at both ends: a record whose field
  \<open>f\<close> holds the number \<open>v\<close> matches \<open>{f: {between: [low, high]}}\<close> iff
  \<open>low \<le> v\<close> and \<open>v \<le> high\<close> (as the language compares numbers; for finite
  numbers, the order of the reals). In a store whose records are, in order, Alice of
  age 25, Bob of age 35 and Charlie of age 45, the query
  \<open>{age: {between: [30, 40]}}\<close> returns exactly the record of Bob.
\<close>

theorem between_inclusive:
  "(f \<noteq> ''$and'' \<and> f \<noteq> ''$or'' \<and> getProp item f = Num v \<longrightarrow>
      matchesFilter item
        (Some (Filter None None
           [(f, Some (no_operators\<lparr>ff_between := Some (NumRange low high)\<rparr>))]))
      = Inr (num_le low v \<and> num_le v high)) \<and>
   (f \<noteq> ''$and'' \<and> f \<noteq> ''$or'' \<and> getProp item f = Num (Finite x) \<longrightarrow>
      matchesFilter item
        (Some (Filter None None
           [(f, Some (no_operators\<lparr>ff_between := Some (NumRange (Finite a) (Finite b))\<rparr>))]))
      = Inr (a \<le> x \<and> x \<le> b)) \<and>
   (Map_values (entries s) = [alice, bob, charlie] \<and>
    getProp alice ''age'' = Num (Finite 25) \<and>
    getProp bob ''age'' = Num (Finite 35) \<and>
    getProp charlie ''age'' = Num (Finite 45) \<longrightarrow>
      query tn
        (Some (Filter None None
           [(''age'', Some (no_operators\<lparr>ff_between := Some (NumRange (Finite 30) (Finite 40))\<rparr>))]))
        None s
      = Inr [bob])"
proof (intro conjI impI)
  assume "f \<noteq> ''$and'' \<and> f \<noteq> ''$or'' \<and> getProp item f = Num v"
  then have "f \<noteq> ''$and''" "f \<noteq> ''$or''" "getProp item f = Num v"
    by simp_all
  then show "matchesFilter item
        (Some (Filter None None
           [(f, Some (no_operators\<lparr>ff_between := Some (NumRange low high)\<rparr>))]))
      = Inr (num_le low v \<and> num_le v high)"
    by (rule matches_between)
next
  assume "f \<noteq> ''$and'' \<and> f \<noteq> ''$or'' \<and> getProp item f = Num (Finite x)"
  then have "f \<noteq> ''$and''" "f \<noteq> ''$or''" "getProp item f = Num (Finite x)"
    by simp_all
  from matches_between[OF this, of "Finite a" "Finite b"]
  show "matchesFilter item
        (Some (Filter None None
           [(f, Some (no_operators\<lparr>ff_between := Some (NumRange (Finite a) (Finite b))\<rparr>))]))
      = Inr (a \<le> x \<and> x \<le> b)"
    unfolding num_le_Finite .
next
  let ?flt = "Some (Filter None None
           [(''age'', Some (no_operators\<lparr>ff_between := Some (NumRange (Finite 30) (Finite 40))\<rparr>))])"
  assume h: "Map_values (entries s) = [alice, bob, charlie] \<and>
    getProp alice ''age'' = Num (Finite 25) \<and>
    getProp bob ''age'' = Num (Finite 35) \<and>
    getProp charlie ''age'' = Num (Finite 45)"
  have ne: "''age'' \<noteq> ''$and''" "''age'' \<noteq> ''$or''"
    by simp_all
  have "matchesFilter alice ?flt = Inr (num_le (Finite 30) (Finite 25) \<and> num_le (Finite 25) (Finite 40))"
    using h by (intro matches_between ne) simp
  then have m1: "matchesFilter alice ?flt = Inr False"
    unfolding num_le_Finite by simp
  have "matchesFilter bob ?flt = Inr (num_le (Finite 30) (Finite 35) \<and> num_le (Finite 35) (Finite 40))"
    using h by (intro matches_between ne) simp
  then have m2: "matchesFilter bob ?flt = Inr True"
    unfolding num_le_Finite by simp
  have "matchesFilter charlie ?flt = Inr (num_le (Finite 30) (Finite 45) \<and> num_le (Finite 45) (Finite 40))"
    using h by (intro matches_between ne) simp
  then have m3: "matchesFilter charlie ?flt = Inr False"
    unfolding num_le_Finite by simp
  have "filter_matching ?flt [alice, bob, charlie] = Inr [bob]"
    by (simp only: filter_matching.simps m1 m2 m3 sum.case if_True if_False)
  with h show "query tn ?flt None s = Inr [bob]"
    by (simp add: query_def sort_stage_def slice_stage_def opt_def slice_def
          del: matchesFilter.simps)
qed

theorem between_inclusive_witness:
  "matchesFilter [''name'' \<mapsto> Str ''Bob'', ''age'' \<mapsto> Num (Finite 35), ''id'' \<mapsto> Str ''id_7_2'']
     (Some (Filter None None
        [(''age'', Some (no_operators\<lparr>ff_between := Some (NumRange (Finite 30) (Finite 40))\<rparr>))]))
   = Inr True \<and>
   query (\<lambda>x. NaN)
     (Some (Filter None None
        [(''age'', Some (no_operators\<lparr>ff_between := Some (NumRange (Finite 30) (Finite 40))\<rparr>))]))
     None
     (perform_all (\<lambda>x. NaN)
        ([Create 7 [''name'' \<mapsto> Str ''Alice'', ''age'' \<mapsto> Num (Finite 25)],
          Create 7 [''name'' \<mapsto> Str ''Bob'', ''age'' \<mapsto> Num (Finite 35)],
          Create 7 [''name'' \<mapsto> Str ''Charlie'', ''age'' \<mapsto> Num (Finite 45)]] :: unit call list)
        (DataStore ''id''))
   = Inr [[''name'' \<mapsto> Str ''Bob'', ''age'' \<mapsto> Num (Finite 35), ''id'' \<mapsto> Str ''id_7_2'']]"
proof -
  let ?alice = "[''name'' \<mapsto> Str ''Alice'', ''age'' \<mapsto> Num (Finite 25), ''id'' \<mapsto> Str ''id_7_1'']"
  let ?bob = "[''name'' \<mapsto> Str ''Bob'', ''age'' \<mapsto> Num (Finite 35), ''id'' \<mapsto> Str ''id_7_2'']"
  let ?charlie = "[''name'' \<mapsto> Str ''Charlie'', ''age'' \<mapsto> Num (Finite 45), ''id'' \<mapsto> Str ''id_7_3'']"
  have ages: "getProp ?alice ''age'' = Num (Finite 25)" "getProp ?bob ''age'' = Num (Finite 35)"
    "getProp ?charlie ''age'' = Num (Finite 45)"
    by (simp_all add: getProp_def)
  have ne: "''age'' \<noteq> ''$and''" "''age'' \<noteq> ''$or''"
    by simp_all
  note b = between_inclusive[where f = "''age''" and item = ?bob and v = "Finite 35"
      and low = "Finite 30" and high = "Finite 40" and x = 35 and a = 30 and b = 40
      and s = "perform_all (\<lambda>x. NaN)
        ([Create 7 [''name'' \<mapsto> Str ''Alice'', ''age'' \<mapsto> Num (Finite 25)],
          Create 7 [''name'' \<mapsto> Str ''Bob'', ''age'' \<mapsto> Num (Finite 35)],
          Create 7 [''name'' \<mapsto> Str ''Charlie'', ''age'' \<mapsto> Num (Finite 45)]] :: unit call list)
        (DataStore ''id'')"
      and alice = ?alice and bob = ?bob and charlie = ?charlie and tn = "\<lambda>x. NaN"]
  from b ages ne have 1: "matchesFilter ?bob
     (Some (Filter None None
        [(''age'', Some (no_operators\<lparr>ff_between := Some (NumRange (Finite 30) (Finite 40))\<rparr>))]))
     = Inr (30 \<le> (35::real) \<and> (35::real) \<le> 40)"
    by blast
  from b ages three_creates have 2: "query (\<lambda>x. NaN)
     (Some (Filter None None
        [(''age'', Some (no_operators\<lparr>ff_between := Some (NumRange (Finite 30) (Finite 40))\<rparr>))]))
     None
     (perform_all (\<lambda>x. NaN)
        ([Create 7 [''name'' \<mapsto> Str ''Alice'', ''age'' \<mapsto> Num (Finite 25)],
          Create 7 [''name'' \<mapsto> Str ''Bob'', ''age'' \<mapsto> Num (Finite 35)],
          Create 7 [''name'' \<mapsto> Str ''Charlie'', ''age'' \<mapsto> Num (Finite 45)]] :: unit call list)
        (DataStore ''id''))
     = Inr [?bob]"
    by blast
  from 1 have "matchesFilter ?bob
     (Some (Filter None None
        [(''age'', Some (no_operators\<lparr>ff_between := Some (NumRange (Finite 30) (Finite 40))\<rparr>))]))
     = Inr True"
    by (simp del: matchesFilter.simps)
  with 2 show ?thesis by blast
qed

section \<open>Pagination\<close>









section \<open>Which operations can raise\<close>


















end
